theory Spec2Isabelle
  imports Main
begin

section \<open>Request shape\<close>

text \<open>
  The endpoint receives a JSON body typed as \<open>FormData\<close>, holding a list of \<open>Alert\<close>
  objects. A JavaScript string is modelled as a HOL \<open>string\<close> (one \<open>char\<close> per code
  unit; the encoder only concatenates strings, compares them and takes their length).
  \<open>deviceId\<close> is a JSON number; the data model makes it an integer, so it is an \<open>int\<close>.
  The field \<open>type\<close> of an alert is called \<open>atype\<close>: at run time it is whatever
  string the request carries.
\<close>

record Alert =
  message :: string
  atype :: string
  isEveryday :: bool
  selectedDays :: "string list"
  hour :: string
  minute :: string

record FormData =
  name :: string
  phone :: string
  email :: string
  medicalInfo :: string
  deviceId :: int
  alerts :: "Alert list"

text \<open>An element of the local array \<open>expandedAlerts\<close> of \<open>formatAlertData\<close>.\<close>

record ExpandedAlert =
  ex_type :: string
  ex_day :: string
  ex_hour :: string
  ex_minute :: string
  ex_message :: string

section \<open>Library functions of the language\<close>

definition decimal_digits :: string where
  "decimal_digits = ''0123456789''"

definition digit_char :: "nat \<Rightarrow> char" where
  "digit_char k = decimal_digits ! (k mod 10)"

text \<open>Decimal digits of a natural number, most significant first, no leading zero.\<close>

fun dec_nat :: "nat \<Rightarrow> string" where
  "dec_nat n = (if n < 10 then [digit_char n] else dec_nat (n div 10) @ [digit_char (n mod 10)])"

declare dec_nat.simps [simp del]

text \<open>\<open>Number.prototype.toString()\<close> on an integer (below the exponent notation range).\<close>

definition number_toString :: "int \<Rightarrow> string" where
  "number_toString i = (if i < 0 then CHR ''-'' # dec_nat (nat (- i)) else dec_nat (nat i))"

text \<open>
  \<open>String.prototype.padStart(targetLength, padString)\<close>: a string that is long enough,
  or an empty filler, gives the string back; otherwise the filler is repeated and cut to
  the missing length, and put in front.
\<close>

definition padStart :: "nat \<Rightarrow> string \<Rightarrow> string \<Rightarrow> string" where
  "padStart targetLength padString s =
     (if targetLength \<le> length s \<or> padString = [] then s
      else take (targetLength - length s)
             (concat (replicate (targetLength - length s) padString)) @ s)"

text \<open>\<open>Array.prototype.join(separator)\<close> on an array of strings.\<close>

fun join :: "string \<Rightarrow> string list \<Rightarrow> string" where
  "join sep [] = []"
| "join sep [x] = x"
| "join sep (x # y # ys) = x @ sep @ join sep (y # ys)"

abbreviation newline :: char where
  "newline \<equiv> CHR 0x0A"

abbreviation comma :: char where
  "comma \<equiv> CHR '',''"

section \<open>Expansion of the alerts\<close>

text \<open>
  The loop \<open>for (let day = 0; day <= 6; day++) expandedAlerts.push({...})\<close>, with the
  array passed along.
\<close>

function everyday_loop ::
  "string \<Rightarrow> string \<Rightarrow> string \<Rightarrow> string \<Rightarrow> int \<Rightarrow> ExpandedAlert list \<Rightarrow> ExpandedAlert list"
where
  "everyday_loop ty h m msg day expandedAlerts =
     (if day \<le> 6
      then everyday_loop ty h m msg (day + 1)
             (expandedAlerts @
                [\<lparr>ex_type = ty, ex_day = number_toString day, ex_hour = h, ex_minute = m,
                  ex_message = msg\<rparr>])
      else expandedAlerts)"
  by pat_completeness auto
termination
  by (relation "measure (\<lambda>(ty, h, m, msg, day, acc). nat (7 - day))") auto

declare everyday_loop.simps [simp del]

text \<open>
  The body of \<open>data.alerts.forEach((alert) => ...)\<close>: one alert is expanded and its
  records are pushed on the array.
\<close>

definition expand_alert :: "ExpandedAlert list \<Rightarrow> Alert \<Rightarrow> ExpandedAlert list" where
  "expand_alert expandedAlerts alert =
     (let ty = (if atype alert = ''Reminder'' then ''r'' else ''m'');
          h = padStart 2 ''0'' (hour alert);
          m = padStart 2 ''0'' (minute alert);
          msg = message alert
      in if isEveryday alert
         then everyday_loop ty h m msg 0 expandedAlerts
         else foldl (\<lambda>acc day.
                acc @ [\<lparr>ex_type = ty, ex_day = day, ex_hour = h, ex_minute = m,
                         ex_message = msg\<rparr>])
              expandedAlerts (selectedDays alert))"

definition expandedAlerts :: "FormData \<Rightarrow> ExpandedAlert list" where
  "expandedAlerts data = foldl expand_alert [] (alerts data)"

section \<open>Serialization\<close>

text \<open>The template literal that makes the line of one expanded record.\<close>

definition record_line :: "ExpandedAlert \<Rightarrow> string" where
  "record_line alert =
     ex_type alert @ '','' @ ex_day alert @ '','' @ ex_hour alert @ '','' @ ex_minute alert
       @ '','' @ ex_message alert"

text \<open>The array \<open>lines\<close> when \<open>formatAlertData\<close> reaches its \<open>return\<close>.\<close>

definition format_lines :: "FormData \<Rightarrow> string list" where
  "format_lines data =
     (let lines0 = [number_toString (int (length (expandedAlerts data)))];
          lines1 = foldl (\<lambda>ls alert. ls @ [record_line alert]) lines0 (expandedAlerts data);
          lines2 = lines1 @ [name data @ '','' @ phone data @ '','' @ email data];
          lines3 = lines2 @ [medicalInfo data];
          lines4 = lines3 @ [number_toString (deviceId data)]
      in lines4)"

definition formatAlertData :: "FormData \<Rightarrow> string" where
  "formatAlertData data = join [newline] (format_lines data)"

section \<open>The endpoint\<close>

text \<open>
  The response of \<open>POST\<close>: a rejection with its HTTP status and message, or the success
  body with the encoder's output. The encoder is called on the last path only. The
  \<open>catch\<close> branch (status 500) is taken when the body is not JSON or not of the declared
  shape; a value of type \<open>FormData\<close> never reaches it.
\<close>

datatype Response = Rejected nat string | Encoded string

definition POST :: "FormData \<Rightarrow> Response" where
  "POST data =
     (if name data = [] \<or> phone data = [] \<or> email data = [] \<or> medicalInfo data = []
         \<or> deviceId data = 0
      then Rejected 400 ''Missing required fields''
      else if deviceId data < 1 \<or> deviceId data > 100
      then Rejected 400 ''Device ID must be between 1 and 100''
      else if length (alerts data) = 0
      then Rejected 400 ''At least one alert is required''
      else Encoded (formatAlertData data))"

section \<open>The form's own gate\<close>

text \<open>
  \<open>handleSubmit\<close> of the dashboard page checks the form before it sends the request.
  The form keeps \<open>deviceId\<close> as the text of its input field. \<open>Number.parseInt\<close> and the
  white space that \<open>String.prototype.trim\<close> removes are parameters: \<open>parseInt\<close> gives
  \<open>None\<close> for \<open>NaN\<close>. The outcome is the toast of the failed check, or the body handed to
  \<open>fetch\<close>. (The alerts of the form also carry an \<open>id\<close>, which the endpoint ignores.)
\<close>

record Dashboard =
  form_name :: string
  form_phone :: string
  form_email :: string
  form_medicalInfo :: string
  form_deviceId :: string
  form_alerts :: "Alert list"

datatype Submission = Toast string string | Fetch FormData

definition trim :: "(char \<Rightarrow> bool) \<Rightarrow> string \<Rightarrow> string" where
  "trim white s = rev (dropWhile white (rev (dropWhile white s)))"

definition handleSubmit ::
  "(string \<Rightarrow> int option) \<Rightarrow> (char \<Rightarrow> bool) \<Rightarrow> Dashboard \<Rightarrow> Submission" where
  "handleSubmit parseInt white f =
     (if form_name f = [] \<or> form_phone f = [] \<or> form_email f = [] \<or> form_medicalInfo f = []
         \<or> form_deviceId f = []
      then Toast ''Missing Information'' ''Please fill in all required fields.''
      else
        (case parseInt (form_deviceId f) of
           None \<Rightarrow> Toast ''Invalid Device ID'' ''Device ID must be between 1 and 100.''
         | Some deviceIdNum \<Rightarrow>
             if deviceIdNum < 1 \<or> deviceIdNum > 100
             then Toast ''Invalid Device ID'' ''Device ID must be between 1 and 100.''
             else if length (form_alerts f) = 0
             then Toast ''No Alerts'' ''Please add at least one alert.''
             else
               (let invalidAlerts =
                      filter (\<lambda>alert. trim white (message alert) = []
                                \<or> (\<not> isEveryday alert \<and> length (selectedDays alert) = 0))
                        (form_alerts f)
                in if length invalidAlerts > 0
                   then Toast ''Invalid Alerts''
                          ''All alerts must have a message and at least one day selected.''
                   else Fetch \<lparr>name = form_name f, phone = form_phone f, email = form_email f,
                                medicalInfo = form_medicalInfo f, deviceId = deviceIdNum,
                                alerts = form_alerts f\<rparr>)))"

section \<open>Loading the saved configurations\<close>

text \<open>
  The database page: the React state \<open>devices\<close>, the entry \<open>medicalAlertDevices\<close> of
  the local storage (\<open>None\<close> when \<open>getItem\<close> returns \<open>null\<close>) and the calls of
  \<open>console.error\<close>, each with its two arguments. \<open>JSON.parse\<close> is a parameter: \<open>Inl\<close>
  is the exception it throws, \<open>Inr\<close> the parsed list. The type of a stored device is left
  open, since loading does not look into it.
\<close>

record 'd DatabasePage =
  devices :: "'d list"
  medicalAlertDevices :: "string option"
  console_error :: "(string \<times> string) list"

definition loadDevices ::
  "(string \<Rightarrow> string + 'd list) \<Rightarrow> 'd DatabasePage \<Rightarrow> 'd DatabasePage" where
  "loadDevices JSON_parse page =
     (case medicalAlertDevices page of
        None \<Rightarrow> page
      | Some stored \<Rightarrow>
          if stored = [] then page
          else
            (case JSON_parse stored of
               Inr parsed \<Rightarrow> page\<lparr>devices := parsed\<rparr>
             | Inl error \<Rightarrow>
                 page\<lparr>console_error :=
                        console_error page @ [(''[v0] Error loading devices:'', error)]\<rparr>))"

text \<open>
  The page as it is mounted: \<open>useState([])\<close>, then the effect that calls \<open>loadDevices\<close>.
\<close>

definition mount :: "(string \<Rightarrow> string + 'd list) \<Rightarrow> string option \<Rightarrow> 'd DatabasePage" where
  "mount JSON_parse stored =
     loadDevices JSON_parse \<lparr>devices = [], medicalAlertDevices = stored, console_error = []\<rparr>"

section \<open>The data model of the specification\<close>

text \<open>
  The invariants that make a request a valid device configuration: the contact fields and
  the medical information are not empty, the device identifier lies between 1 and 100,
  there is an alert, and every alert has a message, one of the two categories, distinct
  weekday codes (at least one unless it is an everyday alert), an hour from 0 to 23 and a
  minute from 0 to 59, each written in decimal digits (the number input of the form keeps
  the text as typed, so \<open>007\<close> is an hour too).
\<close>

definition weekday_codes :: "string list" where
  "weekday_codes = [''0'', ''1'', ''2'', ''3'', ''4'', ''5'', ''6'']"

definition is_digit :: "char \<Rightarrow> bool" where
  "is_digit c = (c \<in> set decimal_digits)"

text \<open>The value of a digit is its place among the ten digits.\<close>

definition digit_val :: "char \<Rightarrow> nat" where
  "digit_val c = length (takeWhile (\<lambda>d. d \<noteq> c) decimal_digits)"

definition digits_val :: "string \<Rightarrow> nat" where
  "digits_val s = foldl (\<lambda>acc c. 10 * acc + digit_val c) 0 s"

definition time_field :: "nat \<Rightarrow> string \<Rightarrow> bool" where
  "time_field bound s =
     (s \<noteq> [] \<and> list_all is_digit s \<and> digits_val s < bound)"

definition two_digits :: "nat \<Rightarrow> string" where
  "two_digits n = [digit_char (n div 10), digit_char (n mod 10)]"

definition valid_alert :: "Alert \<Rightarrow> bool" where
  "valid_alert a =
     (message a \<noteq> [] \<and> (atype a = ''Reminder'' \<or> atype a = ''Medicine'')
      \<and> (isEveryday a \<or> selectedDays a \<noteq> [])
      \<and> set (selectedDays a) \<subseteq> set weekday_codes \<and> distinct (selectedDays a)
      \<and> time_field 24 (hour a) \<and> time_field 60 (minute a))"

definition valid_config :: "FormData \<Rightarrow> bool" where
  "valid_config d =
     (name d \<noteq> [] \<and> phone d \<noteq> [] \<and> email d \<noteq> [] \<and> medicalInfo d \<noteq> []
      \<and> 1 \<le> deviceId d \<and> deviceId d \<le> 100
      \<and> alerts d \<noteq> [] \<and> list_all valid_alert (alerts d))"

text \<open>A text field that the wire format can carry: no comma and no newline in it.\<close>

definition plain :: "string \<Rightarrow> bool" where
  "plain s = (comma \<notin> set s \<and> newline \<notin> set s)"

definition plain_text :: "FormData \<Rightarrow> bool" where
  "plain_text d =
     (plain (name d) \<and> plain (phone d) \<and> plain (email d) \<and> plain (medicalInfo d)
      \<and> list_all (\<lambda>a. plain (message a)) (alerts d))"

section \<open>A reader of the wire format\<close>

text \<open>
  The inverse that the specification describes for the round trip: split the payload at
  the newlines, read the count on the first line, then that many record lines of five
  comma-separated fields, then the contact line of three fields, then the medical
  information line, then the device identifier line. Anything else is refused.
\<close>

fun split_on :: "char \<Rightarrow> string \<Rightarrow> string list" where
  "split_on c [] = [[]]"
| "split_on c (x # xs) =
     (if x = c then [] # split_on c xs
      else (case split_on c xs of [] \<Rightarrow> [[x]] | w # ws \<Rightarrow> (x # w) # ws))"

definition parse_nat :: "string \<Rightarrow> nat option" where
  "parse_nat s = (if s \<noteq> [] \<and> list_all is_digit s then Some (digits_val s) else None)"

definition parse_record :: "string \<Rightarrow> ExpandedAlert option" where
  "parse_record l =
     (case split_on comma l of
        [t, d, h, m, msg] \<Rightarrow>
          Some \<lparr>ex_type = t, ex_day = d, ex_hour = h, ex_minute = m, ex_message = msg\<rparr>
      | _ \<Rightarrow> None)"

record Payload =
  p_records :: "ExpandedAlert list"
  p_name :: string
  p_phone :: string
  p_email :: string
  p_medicalInfo :: string
  p_deviceId :: int

definition parse_payload :: "string \<Rightarrow> Payload option" where
  "parse_payload s =
     (case split_on newline s of
        [] \<Rightarrow> None
      | count_line # rest \<Rightarrow>
          (case parse_nat count_line of
             None \<Rightarrow> None
           | Some n \<Rightarrow>
               (case those (map parse_record (take n rest)) of
                  None \<Rightarrow> None
                | Some recs \<Rightarrow>
                    (case drop n rest of
                       [contact_line, medical_line, id_line] \<Rightarrow>
                         (case split_on comma contact_line of
                            [nm, ph, em] \<Rightarrow>
                              (case parse_nat id_line of
                                 None \<Rightarrow> None
                               | Some dev \<Rightarrow>
                                   Some \<lparr>p_records = recs, p_name = nm, p_phone = ph,
                                         p_email = em, p_medicalInfo = medical_line,
                                         p_deviceId = int dev\<rparr>)
                          | _ \<Rightarrow> None)
                     | _ \<Rightarrow> None))))"

section \<open>Example requests\<close>

text \<open>
  The two examples of the specification (one everyday medicine alert; a reminder on two
  days followed by an everyday medicine alert), and requests whose alert breaks an
  invariant of the data model: no day selected, or no message.
\<close>

definition pill_config :: FormData where
  "pill_config =
     \<lparr>name = ''Ann'', phone = ''555'', email = ''a@b.c'', medicalInfo = ''none'', deviceId = 5,
      alerts = [\<lparr>message = ''Take pill'', atype = ''Medicine'', isEveryday = True,
                  selectedDays = [], hour = ''9'', minute = ''0''\<rparr>]\<rparr>"

definition two_alert_config :: FormData where
  "two_alert_config =
     \<lparr>name = ''Ann'', phone = ''555'', email = ''a@b.c'', medicalInfo = ''none'', deviceId = 100,
      alerts = [\<lparr>message = ''Walk'', atype = ''Reminder'', isEveryday = False,
                  selectedDays = [''3'', ''1''], hour = ''08'', minute = ''30''\<rparr>,
                \<lparr>message = ''Take pill'', atype = ''Medicine'', isEveryday = True,
                  selectedDays = [], hour = ''20'', minute = ''00''\<rparr>]\<rparr>"

definition no_day_alert :: Alert where
  "no_day_alert =
     \<lparr>message = ''Walk'', atype = ''Reminder'', isEveryday = False, selectedDays = [],
      hour = ''09'', minute = ''00''\<rparr>"

definition no_message_alert :: Alert where
  "no_message_alert =
     \<lparr>message = [], atype = ''Reminder'', isEveryday = False, selectedDays = [''2''],
      hour = ''09'', minute = ''00''\<rparr>"


definition no_message_config :: FormData where
  "no_message_config =
     \<lparr>name = ''Bob'', phone = ''777'', email = ''b@c.d'', medicalInfo = ''asthma'', deviceId = 7,
      alerts = [no_message_alert]\<rparr>"


text \<open>
  Database pages whose stored entry is not JSON: a truncated array, and the empty text.
  \<open>JSON.parse\<close> throws a \<open>SyntaxError\<close> on both; \<open>failing_parse\<close> stands for it on
  these texts.
\<close>

definition broken_store :: "nat DatabasePage" where
  "broken_store = \<lparr>devices = [], medicalAlertDevices = Some ''[{'', console_error = []\<rparr>"

definition empty_text_store :: "nat DatabasePage" where
  "empty_text_store = \<lparr>devices = [], medicalAlertDevices = Some [], console_error = []\<rparr>"

definition failing_parse :: "string \<Rightarrow> string + nat list" where
  "failing_parse s = Inl ''SyntaxError''"

section \<open>Expansion: what one alert contributes\<close>

lemma foldl_snoc_map: "foldl (\<lambda>acc x. acc @ [f x]) acc xs = acc @ map f xs"
  by (induction xs arbitrary: acc) simp_all

lemma everyday_loop_0:
  "everyday_loop ty h m msg 0 acc =
     acc @ map (\<lambda>d. \<lparr>ex_type = ty, ex_day = d, ex_hour = h, ex_minute = m, ex_message = msg\<rparr>)
            weekday_codes"
  by (simp add: everyday_loop.simps number_toString_def dec_nat.simps digit_char_def
      decimal_digits_def weekday_codes_def)

lemma expand_alert_eq:
  "expand_alert acc a =
     acc @ map (\<lambda>d. \<lparr>ex_type = (if atype a = ''Reminder'' then ''r'' else ''m''), ex_day = d,
                      ex_hour = padStart 2 ''0'' (hour a), ex_minute = padStart 2 ''0'' (minute a),
                      ex_message = message a\<rparr>)
            (if isEveryday a then weekday_codes else selectedDays a)"
  by (simp add: expand_alert_def Let_def everyday_loop_0 foldl_snoc_map)

lemma expand_alert_acc: "expand_alert acc a = acc @ expand_alert [] a"
  by (simp add: expand_alert_eq)

lemma foldl_expand_alert:
  "foldl expand_alert acc xs = acc @ concat (map (expand_alert []) xs)"
proof (induction xs arbitrary: acc)
  case Nil
  show ?case by simp
next
  case (Cons a xs)
  have "foldl expand_alert acc (a # xs) = foldl expand_alert (expand_alert acc a) xs" by simp
  also have "\<dots> = expand_alert acc a @ concat (map (expand_alert []) xs)" by (rule Cons.IH)
  also have "\<dots> = acc @ concat (map (expand_alert []) (a # xs))"
    using expand_alert_acc [of acc a] by simp
  finally show ?case .
qed

lemma expandedAlerts_concat:
  "expandedAlerts d = concat (map (expand_alert []) (alerts d))"
  by (simp add: expandedAlerts_def foldl_expand_alert)

lemma length_expand_alert:
  "length (expand_alert [] a) = (if isEveryday a then 7 else length (selectedDays a))"
  by (simp add: expand_alert_eq weekday_codes_def)

lemma length_expandedAlerts:
  "length (expandedAlerts d) =
     sum_list (map (\<lambda>a. if isEveryday a then 7 else length (selectedDays a)) (alerts d))"
  by (simp add: expandedAlerts_concat length_concat comp_def length_expand_alert)

text \<open>
  C2. An alert with \<open>isEveryday\<close> set pushes exactly seven records, for the weekday codes
  0, 1, 2, 3, 4, 5, 6 in this order, all with the same category code, the hour and the
  minute padded to two characters, and the message; \<open>selectedDays\<close> plays no part.
\<close>

theorem everyday_expansion:
  "isEveryday a \<Longrightarrow>
     expand_alert acc a =
       acc @ map (\<lambda>d. \<lparr>ex_type = (if atype a = ''Reminder'' then ''r'' else ''m''), ex_day = d,
                        ex_hour = padStart 2 ''0'' (hour a),
                        ex_minute = padStart 2 ''0'' (minute a),
                        ex_message = message a\<rparr>)
              [''0'', ''1'', ''2'', ''3'', ''4'', ''5'', ''6'']
     \<and> length (expand_alert [] a) = 7"
  by (simp add: expand_alert_eq weekday_codes_def)

theorem everyday_expansion_witness:
  "expand_alert []
     \<lparr>message = ''Take pill'', atype = ''Medicine'', isEveryday = True,
      selectedDays = [''4'', ''2''], hour = ''9'', minute = ''0''\<rparr>
   = map (\<lambda>d. \<lparr>ex_type = ''m'', ex_day = d, ex_hour = ''09'', ex_minute = ''00'',
                ex_message = ''Take pill''\<rparr>)
       [''0'', ''1'', ''2'', ''3'', ''4'', ''5'', ''6'']"
  using everyday_expansion [of "\<lparr>message = ''Take pill'', atype = ''Medicine'', isEveryday = True,
      selectedDays = [''4'', ''2''], hour = ''9'', minute = ''0''\<rparr>" "[]"]
  by (simp add: padStart_def)

text \<open>
  C3. An alert without \<open>isEveryday\<close> pushes one record per entry of \<open>selectedDays\<close>, with
  that entry as its day, in the order of the stored array (nothing is sorted): as many
  records as there are entries.
\<close>

theorem selected_days_expansion:
  "\<not> isEveryday a \<Longrightarrow>
     expand_alert acc a =
       acc @ map (\<lambda>d. \<lparr>ex_type = (if atype a = ''Reminder'' then ''r'' else ''m''), ex_day = d,
                        ex_hour = padStart 2 ''0'' (hour a),
                        ex_minute = padStart 2 ''0'' (minute a),
                        ex_message = message a\<rparr>)
              (selectedDays a)
     \<and> length (expand_alert [] a) = length (selectedDays a)
     \<and> map ex_day (expand_alert [] a) = selectedDays a"
  by (simp add: expand_alert_eq comp_def)

theorem selected_days_expansion_witness:
  "expand_alert []
     \<lparr>message = ''Walk'', atype = ''Reminder'', isEveryday = False,
      selectedDays = [''3'', ''1''], hour = ''08'', minute = ''30''\<rparr>
   = [\<lparr>ex_type = ''r'', ex_day = ''3'', ex_hour = ''08'', ex_minute = ''30'', ex_message = ''Walk''\<rparr>,
      \<lparr>ex_type = ''r'', ex_day = ''1'', ex_hour = ''08'', ex_minute = ''30'', ex_message = ''Walk''\<rparr>]"
  using selected_days_expansion [of "\<lparr>message = ''Walk'', atype = ''Reminder'', isEveryday = False,
      selectedDays = [''3'', ''1''], hour = ''08'', minute = ''30''\<rparr>" "[]"]
  by (simp add: padStart_def)

text \<open>
  C10. The category code of every record of an alert is decided by the comparison of its
  \<open>type\<close> with the string \<open>Reminder\<close> alone: \<open>r\<close> when they are equal, \<open>m\<close> for every
  other string, \<open>Medicine\<close> or not.
\<close>

theorem category_code:
  "(\<forall>r \<in> set (expand_alert [] a).
       ex_type r = (if atype a = ''Reminder'' then ''r'' else ''m''))
   \<and> (atype a = ''Reminder'' \<longrightarrow>
        map ex_type (expand_alert [] a) = replicate (length (expand_alert [] a)) ''r'')
   \<and> (atype a \<noteq> ''Reminder'' \<longrightarrow>
        map ex_type (expand_alert [] a) = replicate (length (expand_alert [] a)) ''m'')"
  by (auto simp add: expand_alert_eq comp_def map_replicate_const)

theorem category_code_witness:
  "map ex_type (expand_alert []
     \<lparr>message = ''a'', atype = ''Reminder'', isEveryday = False, selectedDays = [''2''],
      hour = ''7'', minute = ''5''\<rparr>) = [''r'']
   \<and> map ex_type (expand_alert []
     \<lparr>message = ''a'', atype = ''Medicine'', isEveryday = False, selectedDays = [''2''],
      hour = ''7'', minute = ''5''\<rparr>) = [''m'']
   \<and> map ex_type (expand_alert []
     \<lparr>message = ''a'', atype = ''reminder'', isEveryday = False, selectedDays = [''2''],
      hour = ''7'', minute = ''5''\<rparr>) = [''m'']"
  using
    category_code [of "\<lparr>message = ''a'', atype = ''Reminder'', isEveryday = False,
      selectedDays = [''2''], hour = ''7'', minute = ''5''\<rparr>"]
    category_code [of "\<lparr>message = ''a'', atype = ''Medicine'', isEveryday = False,
      selectedDays = [''2''], hour = ''7'', minute = ''5''\<rparr>"]
    category_code [of "\<lparr>message = ''a'', atype = ''reminder'', isEveryday = False,
      selectedDays = [''2''], hour = ''7'', minute = ''5''\<rparr>"]
  by (simp add: length_expand_alert)

section \<open>Decimal numbers, joining and splitting\<close>

lemma below_ten: "k < 10 \<Longrightarrow> k \<in> {0, 1, 2, 3, 4, 5, 6, 7, 8, 9::nat}"
  by auto

lemma digit_char_is_digit: "is_digit (digit_char k)"
  unfolding is_digit_def digit_char_def by (rule nth_mem) (simp add: decimal_digits_def)

lemma digit_val_digit_char: "k < 10 \<Longrightarrow> digit_val (digit_char k) = k"
  using below_ten [of k] by (auto simp add: digit_val_def digit_char_def decimal_digits_def)

lemma digit_char_digit_val: "is_digit c \<Longrightarrow> digit_char (digit_val c) = c"
  by (auto simp add: is_digit_def digit_val_def digit_char_def decimal_digits_def)

lemma digit_val_less: "is_digit c \<Longrightarrow> digit_val c < 10"
  by (auto simp add: is_digit_def digit_val_def decimal_digits_def)

lemma is_digit_plain: "is_digit c \<Longrightarrow> c \<noteq> comma \<and> c \<noteq> newline"
  by (auto simp add: is_digit_def decimal_digits_def)

lemma digits_plain: "list_all is_digit s \<Longrightarrow> plain s"
  using is_digit_plain by (auto simp add: plain_def list_all_iff)

lemma dec_nat_digits: "list_all is_digit (dec_nat n)"
proof (induction n rule: dec_nat.induct)
  case (1 n)
  show ?case
  proof (cases "n < 10")
    case True
    then show ?thesis by (simp add: dec_nat.simps [of n] digit_char_is_digit)
  next
    case False
    with "1" show ?thesis by (simp add: dec_nat.simps [of n] digit_char_is_digit)
  qed
qed

lemma dec_nat_nonempty: "dec_nat n \<noteq> []"
  by (simp add: dec_nat.simps [of n])

lemma digits_val_snoc: "digits_val (s @ [c]) = 10 * digits_val s + digit_val c"
  by (simp add: digits_val_def)

lemma digits_val_dec_nat: "digits_val (dec_nat n) = n"
proof (induction n rule: dec_nat.induct)
  case (1 n)
  show ?case
  proof (cases "n < 10")
    case True
    then show ?thesis
      by (simp add: dec_nat.simps [of n] digits_val_def digit_val_digit_char)
  next
    case False
    then have "digits_val (dec_nat n) = 10 * digits_val (dec_nat (n div 10)) + digit_val (digit_char (n mod 10))"
      by (simp add: dec_nat.simps [of n] digits_val_snoc)
    also have "\<dots> = 10 * (n div 10) + n mod 10"
      using "1" False by (simp add: digit_val_digit_char)
    finally show ?thesis by simp
  qed
qed

lemma parse_nat_dec_nat: "parse_nat (dec_nat n) = Some n"
  by (simp add: parse_nat_def dec_nat_nonempty dec_nat_digits digits_val_dec_nat)

lemma number_toString_nat: "0 \<le> i \<Longrightarrow> number_toString i = dec_nat (nat i)"
  by (simp add: number_toString_def)

lemma join_Cons: "ls \<noteq> [] \<Longrightarrow> join sep (x # ls) = x @ sep @ join sep ls"
  by (cases ls) simp_all

lemma join_snoc: "join sep (ls @ [l]) = concat (map (\<lambda>x. x @ sep) ls) @ l"
proof (induction ls)
  case Nil
  show ?case by simp
next
  case (Cons x ls)
  then show ?case by (simp add: join_Cons)
qed

lemma split_on_nonempty: "split_on c s \<noteq> []"
  by (induction s) (auto split: list.splits)

lemma split_on_none: "c \<notin> set s \<Longrightarrow> split_on c s = [s]"
  by (induction s) auto

lemma split_on_append: "c \<notin> set l \<Longrightarrow> split_on c (l @ c # t) = l # split_on c t"
  by (induction l) (auto split: list.splits)

lemma split_on_join:
  "ls \<noteq> [] \<Longrightarrow> \<forall>l \<in> set ls. c \<notin> set l \<Longrightarrow> split_on c (join [c] ls) = ls"
proof (induction ls)
  case Nil
  then show ?case by simp
next
  case (Cons x ls)
  show ?case
  proof (cases "ls = []")
    case True
    with Cons.prems show ?thesis by (simp add: split_on_none)
  next
    case False
    with Cons have "split_on c (join [c] ls) = ls" by simp
    with False Cons.prems show ?thesis by (simp add: join_Cons split_on_append)
  qed
qed

lemma digits_val_Cons: "digits_val (c # s) = digit_val c * 10 ^ length s + digits_val s"
proof (induction s rule: rev_induct)
  case Nil
  show ?case by (simp add: digits_val_def)
next
  case (snoc x xs)
  have "digits_val (c # xs @ [x]) = 10 * digits_val (c # xs) + digit_val x"
    using digits_val_snoc [of "c # xs" x] by simp
  with snoc show ?case by (simp add: digits_val_snoc algebra_simps)
qed

lemma digits_val_zero: "digits_val (CHR ''0'' # s) = digits_val s"
  by (simp add: digits_val_Cons) (simp add: digit_val_def decimal_digits_def)

lemma padStart_2:
  "padStart 2 ''0'' s =
     (if s = [] then ''00'' else if length s = 1 then CHR ''0'' # s else s)"
proof (cases s)
  case Nil
  then show ?thesis by (simp add: padStart_def numeral_2_eq_2)
next
  case (Cons c t)
  then show ?thesis by (cases t) (simp_all add: padStart_def)
qed

lemma two_digits_pad:
  assumes "s \<noteq> []" and "length s \<le> 2" and "list_all is_digit s"
  shows "padStart 2 ''0'' s = two_digits (digits_val s)"
proof -
  from assms consider c where "s = [c]" "is_digit c"
    | c1 c2 where "s = [c1, c2]" "is_digit c1" "is_digit c2"
    by (cases s; cases "tl s"; cases "tl (tl s)") auto
  then show ?thesis
  proof cases
    case 1
    then show ?thesis
      by (simp add: padStart_def two_digits_def digits_val_def digit_val_less
          digit_char_digit_val) (simp add: digit_char_def decimal_digits_def)
  next
    case 2
    then have "digits_val s = 10 * digit_val c1 + digit_val c2" by (simp add: digits_val_def)
    moreover have "digit_val c2 < 10" using 2 by (simp add: digit_val_less)
    ultimately have "digits_val s div 10 = digit_val c1" "digits_val s mod 10 = digit_val c2"
      by simp_all
    then show ?thesis using 2
      by (simp add: padStart_def two_digits_def digit_char_digit_val)
  qed
qed

lemma zero_is_digit: "is_digit CHR ''0''"
  by (simp add: is_digit_def decimal_digits_def)

text \<open>What \<open>padStart(2, "0")\<close> makes of an hour or a minute of the data model.\<close>

lemma time_field_pad:
  assumes "time_field b s"
  shows "padStart 2 ''0'' s = (if length s = 1 then CHR ''0'' # s else s)"
    and "2 \<le> length (padStart 2 ''0'' s)"
    and "list_all is_digit (padStart 2 ''0'' s)"
    and "digits_val (padStart 2 ''0'' s) = digits_val s"
    and "length s \<le> 2 \<longrightarrow> padStart 2 ''0'' s = two_digits (digits_val s)"
proof -
  from assms have ne: "s \<noteq> []" and dg: "list_all is_digit s" by (simp_all add: time_field_def)
  from ne show eq: "padStart 2 ''0'' s = (if length s = 1 then CHR ''0'' # s else s)"
    by (simp add: padStart_2)
  from ne show "2 \<le> length (padStart 2 ''0'' s)"
    unfolding eq by (cases s; cases "tl s") auto
  from dg show "list_all is_digit (padStart 2 ''0'' s)" unfolding eq by (simp add: zero_is_digit)
  show "digits_val (padStart 2 ''0'' s) = digits_val s" unfolding eq by (simp add: digits_val_zero)
  from ne dg show "length s \<le> 2 \<longrightarrow> padStart 2 ''0'' s = two_digits (digits_val s)"
    by (simp add: two_digits_pad)
qed

lemma format_lines_eq:
  "format_lines d =
     number_toString (int (length (expandedAlerts d)))
       # map record_line (expandedAlerts d)
       @ [name d @ '','' @ phone d @ '','' @ email d, medicalInfo d, number_toString (deviceId d)]"
  by (simp add: format_lines_def Let_def foldl_snoc_map)

section \<open>The header line\<close>

lemma takeWhile_line: "newline \<notin> set x \<Longrightarrow> takeWhile (\<lambda>c. c \<noteq> newline) (x @ newline # r) = x"
  by (induction x) auto

lemma first_line_join:
  "newline \<notin> set x \<Longrightarrow> ls \<noteq> [] \<Longrightarrow>
     takeWhile (\<lambda>c. c \<noteq> newline) (join [newline] (x # ls)) = x"
  by (simp add: join_Cons takeWhile_line)

lemma dec_nat_no_newline: "newline \<notin> set (dec_nat n)"
  using digits_plain [OF dec_nat_digits, of n] by (simp add: plain_def)

text \<open>
  C4. The first entry of \<open>lines\<close> is the decimal form of the sum, over the alerts, of 7
  for an everyday alert and of the number of selected days otherwise; exactly that many
  record lines follow it, before the contact, medical information and device lines. The
  output is that number, a newline, each of the record lines with a newline after it, and
  the three closing lines; its text up to the first newline reads back as that number.
\<close>

theorem header_count:
  "format_lines d =
     dec_nat (sum_list (map (\<lambda>a. if isEveryday a then 7 else length (selectedDays a)) (alerts d)))
       # map record_line (expandedAlerts d)
       @ [name d @ '','' @ phone d @ '','' @ email d, medicalInfo d, number_toString (deviceId d)]
   \<and> length (map record_line (expandedAlerts d)) =
       sum_list (map (\<lambda>a. if isEveryday a then 7 else length (selectedDays a)) (alerts d))
   \<and> formatAlertData d =
       dec_nat (sum_list (map (\<lambda>a. if isEveryday a then 7 else length (selectedDays a)) (alerts d)))
       @ [newline]
       @ concat (map (\<lambda>r. record_line r @ [newline]) (expandedAlerts d))
       @ name d @ '','' @ phone d @ '','' @ email d @ [newline]
       @ medicalInfo d @ [newline]
       @ number_toString (deviceId d)
   \<and> parse_nat (takeWhile (\<lambda>c. c \<noteq> newline) (formatAlertData d)) =
       Some (sum_list (map (\<lambda>a. if isEveryday a then 7 else length (selectedDays a)) (alerts d)))"
proof -
  let ?n = "sum_list (map (\<lambda>a. if isEveryday a then 7 else length (selectedDays a)) (alerts d))"
  let ?rest = "map record_line (expandedAlerts d)
       @ [name d @ '','' @ phone d @ '','' @ email d, medicalInfo d, number_toString (deviceId d)]"
  have len: "length (expandedAlerts d) = ?n" by (rule length_expandedAlerts)
  have lines: "format_lines d = dec_nat ?n # ?rest"
    by (simp add: format_lines_eq len [symmetric] number_toString_nat)
  have snoc: "format_lines d =
      (dec_nat ?n # map record_line (expandedAlerts d)
        @ [name d @ '','' @ phone d @ '','' @ email d, medicalInfo d])
      @ [number_toString (deviceId d)]"
    by (simp add: lines)
  have out: "formatAlertData d =
       dec_nat ?n @ [newline]
       @ concat (map (\<lambda>r. record_line r @ [newline]) (expandedAlerts d))
       @ name d @ '','' @ phone d @ '','' @ email d @ [newline]
       @ medicalInfo d @ [newline]
       @ number_toString (deviceId d)"
    unfolding formatAlertData_def snoc join_snoc by (simp add: comp_def)
  have "takeWhile (\<lambda>c. c \<noteq> newline) (formatAlertData d) = dec_nat ?n"
    unfolding formatAlertData_def lines by (rule first_line_join) (simp_all add: dec_nat_no_newline)
  then have "parse_nat (takeWhile (\<lambda>c. c \<noteq> newline) (formatAlertData d)) = Some ?n"
    by (simp add: parse_nat_dec_nat)
  with lines len out show ?thesis by simp
qed

theorem header_count_witness:
  "formatAlertData two_alert_config =
     ''9\<newline>r,3,08,30,Walk\<newline>r,1,08,30,Walk\<newline>m,0,20,00,Take pill\<newline>m,1,20,00,Take pill\<newline>m,2,20,00,Take pill\<newline>m,3,20,00,Take pill\<newline>m,4,20,00,Take pill\<newline>m,5,20,00,Take pill\<newline>m,6,20,00,Take pill\<newline>Ann,555,a@b.c\<newline>none\<newline>100''
   \<and> parse_nat (takeWhile (\<lambda>c. c \<noteq> newline) (formatAlertData two_alert_config)) = Some 9"
proof -
  have n: "sum_list (map (\<lambda>a. if isEveryday a then 7 else length (selectedDays a))
             (alerts two_alert_config)) = 9"
    by (simp add: two_alert_config_def)
  have e: "map (\<lambda>r. record_line r @ [newline]) (expandedAlerts two_alert_config) =
      [''r,3,08,30,Walk\<newline>'', ''r,1,08,30,Walk\<newline>'', ''m,0,20,00,Take pill\<newline>'',
       ''m,1,20,00,Take pill\<newline>'', ''m,2,20,00,Take pill\<newline>'',
       ''m,3,20,00,Take pill\<newline>'', ''m,4,20,00,Take pill\<newline>'',
       ''m,5,20,00,Take pill\<newline>'', ''m,6,20,00,Take pill\<newline>'']"
    by (simp add: two_alert_config_def expandedAlerts_def expand_alert_eq padStart_def
        weekday_codes_def record_line_def)
  have t: "dec_nat 9 = ''9''" "number_toString 100 = ''100''"
    by (simp_all add: number_toString_def dec_nat.simps digit_char_def decimal_digits_def)
  have s: "name two_alert_config = ''Ann''" "phone two_alert_config = ''555''"
    "email two_alert_config = ''a@b.c''" "medicalInfo two_alert_config = ''none''"
    "deviceId two_alert_config = 100"
    by (simp_all add: two_alert_config_def)
  note h = header_count [of two_alert_config, unfolded n]
  have "formatAlertData two_alert_config =
     ''9\<newline>r,3,08,30,Walk\<newline>r,1,08,30,Walk\<newline>m,0,20,00,Take pill\<newline>m,1,20,00,Take pill\<newline>m,2,20,00,Take pill\<newline>m,3,20,00,Take pill\<newline>m,4,20,00,Take pill\<newline>m,5,20,00,Take pill\<newline>m,6,20,00,Take pill\<newline>Ann,555,a@b.c\<newline>none\<newline>100''"
    unfolding h [THEN conjunct2, THEN conjunct2, THEN conjunct1]
    by (simp only: e s t) simp
  with h [THEN conjunct2, THEN conjunct2, THEN conjunct2] show ?thesis by (rule conjI [rotated])
qed

section \<open>What the endpoint accepts\<close>

text \<open>
  C7. Whatever the rest of the request is, a device identifier below 1 or above 100 is
  answered with status 400 (as a missing field when it is 0, which is falsy, or when a
  required field is empty; as out of range otherwise), so the encoder is not called; with
  the contact fields, the medical information and an alert present, the identifiers 1 and
  100 are encoded.
\<close>

theorem device_id_range:
  "(\<forall>i. i < 1 \<or> 100 < i \<longrightarrow>
       POST (d\<lparr>deviceId := i\<rparr>) = Rejected 400 ''Missing required fields''
       \<or> POST (d\<lparr>deviceId := i\<rparr>) = Rejected 400 ''Device ID must be between 1 and 100'')
   \<and> (name d \<noteq> [] \<and> phone d \<noteq> [] \<and> email d \<noteq> [] \<and> medicalInfo d \<noteq> [] \<and> alerts d \<noteq> [] \<longrightarrow>
        POST (d\<lparr>deviceId := 1\<rparr>) = Encoded (formatAlertData (d\<lparr>deviceId := 1\<rparr>))
        \<and> POST (d\<lparr>deviceId := 100\<rparr>) = Encoded (formatAlertData (d\<lparr>deviceId := 100\<rparr>)))"
  by (auto simp add: POST_def)

theorem device_id_range_witness:
  "POST (pill_config\<lparr>deviceId := 0\<rparr>) = Rejected 400 ''Missing required fields''
   \<and> POST (pill_config\<lparr>deviceId := - 3\<rparr>) = Rejected 400 ''Device ID must be between 1 and 100''
   \<and> POST (pill_config\<lparr>deviceId := 101\<rparr>) = Rejected 400 ''Device ID must be between 1 and 100''
   \<and> POST (pill_config\<lparr>deviceId := 1\<rparr>) = Encoded (formatAlertData (pill_config\<lparr>deviceId := 1\<rparr>))
   \<and> POST (pill_config\<lparr>deviceId := 100\<rparr>)
       = Encoded (formatAlertData (pill_config\<lparr>deviceId := 100\<rparr>))"
proof -
  have f: "name pill_config \<noteq> [] \<and> phone pill_config \<noteq> [] \<and> email pill_config \<noteq> []
      \<and> medicalInfo pill_config \<noteq> [] \<and> alerts pill_config \<noteq> []"
    by (simp add: pill_config_def)
  have r: "POST (pill_config\<lparr>deviceId := 0\<rparr>) \<noteq> Rejected 400 ''Device ID must be between 1 and 100''"
    "POST (pill_config\<lparr>deviceId := - 3\<rparr>) \<noteq> Rejected 400 ''Missing required fields''"
    "POST (pill_config\<lparr>deviceId := 101\<rparr>) \<noteq> Rejected 400 ''Missing required fields''"
    by (simp_all add: POST_def pill_config_def)
  have d0: "POST (pill_config\<lparr>deviceId := 0\<rparr>) = Rejected 400 ''Missing required fields''
      \<or> POST (pill_config\<lparr>deviceId := 0\<rparr>) = Rejected 400 ''Device ID must be between 1 and 100''"
    using device_id_range [of pill_config, THEN conjunct1, rule_format, of 0] by simp
  have d1: "POST (pill_config\<lparr>deviceId := - 3\<rparr>) = Rejected 400 ''Missing required fields''
      \<or> POST (pill_config\<lparr>deviceId := - 3\<rparr>) = Rejected 400 ''Device ID must be between 1 and 100''"
    using device_id_range [of pill_config, THEN conjunct1, rule_format, of "- 3"] by simp
  have d2: "POST (pill_config\<lparr>deviceId := 101\<rparr>) = Rejected 400 ''Missing required fields''
      \<or> POST (pill_config\<lparr>deviceId := 101\<rparr>) = Rejected 400 ''Device ID must be between 1 and 100''"
    using device_id_range [of pill_config, THEN conjunct1, rule_format, of 101] by simp
  from device_id_range [of pill_config, THEN conjunct2, rule_format, OF f] d0 d1 d2 r
  show ?thesis by blast
qed



text \<open>
  C6. The endpoint does not look into the alerts. A request whose only alert has an empty
  message, and one whose only alert has no day selected, pass its three checks and are
  encoded: the first gives a record line with an empty message field, the second a count
  of 0 and no record line.
\<close>

theorem endpoint_encodes_invalid_alerts:
  "POST no_message_config = Encoded ''1\<newline>r,2,09,00,\<newline>Bob,777,b@c.d\<newline>asthma\<newline>7''
   \<and> POST (no_message_config\<lparr>alerts := [no_day_alert]\<rparr>)
       = Encoded ''0\<newline>Bob,777,b@c.d\<newline>asthma\<newline>7''"
proof -
  have n: "number_toString 0 = ''0''" "number_toString 1 = ''1''" "number_toString 7 = ''7''"
    by (simp_all add: number_toString_def dec_nat.simps digit_char_def decimal_digits_def)
  have e1: "expandedAlerts no_message_config =
      [\<lparr>ex_type = ''r'', ex_day = ''2'', ex_hour = ''09'', ex_minute = ''00'', ex_message = []\<rparr>]"
    by (simp add: expandedAlerts_def no_message_config_def no_message_alert_def expand_alert_eq
        padStart_def)
  have e2: "expandedAlerts (no_message_config\<lparr>alerts := [no_day_alert]\<rparr>) = []"
    by (simp add: expandedAlerts_def no_day_alert_def expand_alert_eq)
  have l1: "format_lines no_message_config =
      [''1'', ''r,2,09,00,'', ''Bob,777,b@c.d'', ''asthma'', ''7'']"
    unfolding format_lines_eq e1 by (simp add: n record_line_def no_message_config_def)
  have l2: "format_lines (no_message_config\<lparr>alerts := [no_day_alert]\<rparr>) =
      [''0'', ''Bob,777,b@c.d'', ''asthma'', ''7'']"
    unfolding format_lines_eq e2 by (simp add: n no_message_config_def)
  have f1: "formatAlertData no_message_config =
      ''1\<newline>r,2,09,00,\<newline>Bob,777,b@c.d\<newline>asthma\<newline>7''"
    unfolding formatAlertData_def l1 by simp
  have f2: "formatAlertData (no_message_config\<lparr>alerts := [no_day_alert]\<rparr>) =
      ''0\<newline>Bob,777,b@c.d\<newline>asthma\<newline>7''"
    unfolding formatAlertData_def l2 by simp
  have p1: "POST no_message_config = Encoded (formatAlertData no_message_config)"
    by (simp add: POST_def no_message_config_def)
  have p2: "POST (no_message_config\<lparr>alerts := [no_day_alert]\<rparr>) =
      Encoded (formatAlertData (no_message_config\<lparr>alerts := [no_day_alert]\<rparr>))"
    by (simp add: POST_def no_message_config_def)
  show ?thesis unfolding p1 p2 f1 f2 by simp
qed

text \<open>
  The form does what the endpoint leaves out: \<open>handleSubmit\<close> answers such an alert with
  a toast and sends nothing.
\<close>

lemma handleSubmit_gate:
  assumes "a \<in> set (form_alerts f)"
    and "message a = [] \<or> (\<not> isEveryday a \<and> selectedDays a = [])"
  shows "\<exists>title description. handleSubmit parseInt white f = Toast title description"
proof -
  let ?bad = "\<lambda>alert. trim white (message alert) = []
                \<or> (\<not> isEveryday alert \<and> length (selectedDays alert) = 0)"
  from assms(2) have "?bad a" by (auto simp add: trim_def)
  with assms(1) have "a \<in> set (filter ?bad (form_alerts f))" by simp
  then have "length (filter ?bad (form_alerts f)) > 0" by (rule length_pos_if_in_set)
  then show ?thesis
    by (simp add: handleSubmit_def Let_def split: option.split)
qed

section \<open>The serialized output\<close>

lemma two_digits_digits: "list_all is_digit (two_digits n)"
  by (simp add: two_digits_def digit_char_is_digit)

lemma weekday_codes_plain: "w \<in> set weekday_codes \<Longrightarrow> plain w"
  by (auto simp add: weekday_codes_def plain_def)

lemma expanded_of_valid:
  assumes "list_all valid_alert xs" and "r \<in> set (concat (map (expand_alert []) xs))"
  shows "\<exists>a \<in> set xs.
           ex_type r = (if atype a = ''Reminder'' then ''r'' else ''m'')
           \<and> ex_day r \<in> set weekday_codes
           \<and> ex_hour r = (if length (hour a) = 1 then CHR ''0'' # hour a else hour a)
           \<and> ex_minute r = (if length (minute a) = 1 then CHR ''0'' # minute a else minute a)
           \<and> 2 \<le> length (ex_hour r) \<and> 2 \<le> length (ex_minute r)
           \<and> list_all is_digit (ex_hour r) \<and> list_all is_digit (ex_minute r)
           \<and> digits_val (ex_hour r) = digits_val (hour a)
           \<and> digits_val (ex_minute r) = digits_val (minute a)
           \<and> (length (hour a) \<le> 2 \<longrightarrow> ex_hour r = two_digits (digits_val (hour a)))
           \<and> (length (minute a) \<le> 2 \<longrightarrow> ex_minute r = two_digits (digits_val (minute a)))
           \<and> ex_message r = message a"
proof -
  from assms(2) obtain a where a: "a \<in> set xs" and r: "r \<in> set (expand_alert [] a)" by auto
  from assms(1) a have va: "valid_alert a" by (simp add: list_all_iff)
  then have th: "time_field 24 (hour a)" and tm: "time_field 60 (minute a)"
    by (simp_all add: valid_alert_def)
  note ph = time_field_pad [OF th] and pm = time_field_pad [OF tm]
  from va have days: "set (selectedDays a) \<subseteq> set weekday_codes" by (simp add: valid_alert_def)
  from r obtain w where w: "w \<in> set (if isEveryday a then weekday_codes else selectedDays a)"
    and req: "r = \<lparr>ex_type = (if atype a = ''Reminder'' then ''r'' else ''m''), ex_day = w,
                    ex_hour = padStart 2 ''0'' (hour a), ex_minute = padStart 2 ''0'' (minute a),
                    ex_message = message a\<rparr>"
    unfolding expand_alert_eq [of "[]" a] by auto
  from req have eh: "ex_hour r = padStart 2 ''0'' (hour a)"
    and em: "ex_minute r = padStart 2 ''0'' (minute a)" by simp_all
  from req have "ex_type r = (if atype a = ''Reminder'' then ''r'' else ''m'')" by simp
  moreover from w days req have "ex_day r \<in> set weekday_codes" by (auto split: if_splits)
  moreover have "ex_hour r = (if length (hour a) = 1 then CHR ''0'' # hour a else hour a)"
    unfolding eh by (rule ph(1))
  moreover have "ex_minute r = (if length (minute a) = 1 then CHR ''0'' # minute a else minute a)"
    unfolding em by (rule pm(1))
  moreover have "2 \<le> length (ex_hour r)" unfolding eh by (rule ph(2))
  moreover have "2 \<le> length (ex_minute r)" unfolding em by (rule pm(2))
  moreover have "list_all is_digit (ex_hour r)" unfolding eh by (rule ph(3))
  moreover have "list_all is_digit (ex_minute r)" unfolding em by (rule pm(3))
  moreover have "digits_val (ex_hour r) = digits_val (hour a)" unfolding eh by (rule ph(4))
  moreover have "digits_val (ex_minute r) = digits_val (minute a)" unfolding em by (rule pm(4))
  moreover have "length (hour a) \<le> 2 \<longrightarrow> ex_hour r = two_digits (digits_val (hour a))"
    unfolding eh by (rule ph(5))
  moreover have "length (minute a) \<le> 2 \<longrightarrow> ex_minute r = two_digits (digits_val (minute a))"
    unfolding em by (rule pm(5))
  moreover from req have "ex_message r = message a" by simp
  ultimately show ?thesis using a by blast
qed






section \<open>Reading the output back\<close>

lemma those_parse:
  "(\<forall>x \<in> set xs. f (g x) = Some x) \<Longrightarrow> those (map f (map g xs)) = Some xs"
  by (induction xs) simp_all

lemma split_record_line:
  assumes "comma \<notin> set t" and "comma \<notin> set w" and "comma \<notin> set h" and "comma \<notin> set m"
    and "comma \<notin> set msg"
  shows "split_on comma (t @ '','' @ w @ '','' @ h @ '','' @ m @ '','' @ msg) = [t, w, h, m, msg]"
  using assms by (simp add: split_on_append split_on_none)

lemma parse_record_line:
  assumes "plain (ex_type r)" and "plain (ex_day r)" and "plain (ex_hour r)"
    and "plain (ex_minute r)" and "plain (ex_message r)"
  shows "parse_record (record_line r) = Some r"
proof -
  have "split_on comma (record_line r) =
          [ex_type r, ex_day r, ex_hour r, ex_minute r, ex_message r]"
    unfolding record_line_def using assms by (intro split_record_line) (simp_all add: plain_def)
  then show ?thesis by (simp add: parse_record_def)
qed

lemma record_line_no_newline:
  assumes "plain (ex_type r)" and "plain (ex_day r)" and "plain (ex_hour r)"
    and "plain (ex_minute r)" and "plain (ex_message r)"
  shows "newline \<notin> set (record_line r)"
  using assms by (simp add: record_line_def plain_def)

lemma expanded_plain:
  assumes "valid_config d" and "plain_text d" and "r \<in> set (expandedAlerts d)"
  shows "plain (ex_type r) \<and> plain (ex_day r) \<and> plain (ex_hour r) \<and> plain (ex_minute r)
         \<and> plain (ex_message r)"
proof -
  from assms(1) have va: "list_all valid_alert (alerts d)" by (simp add: valid_config_def)
  from assms(3) have "r \<in> set (concat (map (expand_alert []) (alerts d)))"
    by (simp add: expandedAlerts_concat)
  from expanded_of_valid [OF va this] obtain a where a: "a \<in> set (alerts d)"
    and ty: "ex_type r = (if atype a = ''Reminder'' then ''r'' else ''m'')"
    and day: "ex_day r \<in> set weekday_codes"
    and h: "list_all is_digit (ex_hour r)"
    and m: "list_all is_digit (ex_minute r)"
    and msg: "ex_message r = message a"
    by blast
  from ty have "plain (ex_type r)" by (simp add: plain_def)
  moreover from day have "plain (ex_day r)" by (rule weekday_codes_plain)
  moreover from h have "plain (ex_hour r)" by (rule digits_plain)
  moreover from m have "plain (ex_minute r)" by (rule digits_plain)
  moreover from assms(2) a msg have "plain (ex_message r)"
    by (simp add: plain_text_def list_all_iff)
  ultimately show ?thesis by simp
qed

text \<open>
  C5. For a valid configuration whose name, phone, email, medical information and
  messages hold no comma and no newline, reading the output gives back the expanded
  records, the three contact fields, the medical information and the device identifier.
\<close>

theorem round_trip:
  assumes "valid_config d" and "plain_text d"
  shows "parse_payload (formatAlertData d) =
           Some \<lparr>p_records = expandedAlerts d, p_name = name d, p_phone = phone d,
                 p_email = email d, p_medicalInfo = medicalInfo d, p_deviceId = deviceId d\<rparr>"
proof -
  let ?E = "expandedAlerts d"
  let ?contact = "name d @ '','' @ phone d @ '','' @ email d"
  let ?tail = "[?contact, medicalInfo d, dec_nat (nat (deviceId d))]"
  let ?rest = "map record_line ?E @ ?tail"
  from assms(1) have dev: "0 \<le> deviceId d" by (simp add: valid_config_def)
  from assms(2) have pl: "plain (name d)" "plain (phone d)" "plain (email d)"
    "plain (medicalInfo d)" by (simp_all add: plain_text_def)
  have lines: "format_lines d = dec_nat (length ?E) # ?rest"
    using dev by (simp add: format_lines_eq number_toString_nat)
  have recs: "\<forall>r \<in> set ?E. parse_record (record_line r) = Some r"
    using expanded_plain [OF assms] parse_record_line by blast
  have "\<forall>r \<in> set ?E. newline \<notin> set (record_line r)"
    using expanded_plain [OF assms] record_line_no_newline by blast
  then have "\<forall>l \<in> set (format_lines d). newline \<notin> set l"
    unfolding lines using pl dec_nat_no_newline by (auto simp add: plain_def)
  then have split: "split_on newline (formatAlertData d) = dec_nat (length ?E) # ?rest"
    unfolding formatAlertData_def using split_on_join [of "format_lines d" newline]
    by (simp add: lines)
  have take: "take (length ?E) ?rest = map record_line ?E" by simp
  have drop: "drop (length ?E) ?rest = ?tail" by simp
  have contact: "split_on comma ?contact = [name d, phone d, email d]"
    using pl by (simp add: plain_def split_on_append split_on_none)
  have those: "those (map parse_record (map record_line ?E)) = Some ?E"
    using recs by (rule those_parse)
  show ?thesis
    unfolding parse_payload_def split
    using dev
    by (simp only: list.case option.case parse_nat_dec_nat take drop those contact) simp
qed

lemma two_alert_config_valid: "valid_config two_alert_config"
  by (simp add: two_alert_config_def valid_config_def valid_alert_def time_field_def is_digit_def
      digits_val_def digit_val_def decimal_digits_def weekday_codes_def)

theorem round_trip_witness:
  "valid_config two_alert_config \<and> plain_text two_alert_config \<and>
   parse_payload (formatAlertData two_alert_config) =
     Some \<lparr>p_records =
             [\<lparr>ex_type = ''r'', ex_day = ''3'', ex_hour = ''08'', ex_minute = ''30'',
               ex_message = ''Walk''\<rparr>,
              \<lparr>ex_type = ''r'', ex_day = ''1'', ex_hour = ''08'', ex_minute = ''30'',
               ex_message = ''Walk''\<rparr>]
             @ map (\<lambda>w. \<lparr>ex_type = ''m'', ex_day = w, ex_hour = ''20'', ex_minute = ''00'',
                           ex_message = ''Take pill''\<rparr>) weekday_codes,
           p_name = ''Ann'', p_phone = ''555'', p_email = ''a@b.c'', p_medicalInfo = ''none'',
           p_deviceId = 100\<rparr>"
proof -
  note v = two_alert_config_valid
  have p: "plain_text two_alert_config"
    by (simp add: two_alert_config_def plain_text_def plain_def)
  have e: "expandedAlerts two_alert_config =
             [\<lparr>ex_type = ''r'', ex_day = ''3'', ex_hour = ''08'', ex_minute = ''30'',
               ex_message = ''Walk''\<rparr>,
              \<lparr>ex_type = ''r'', ex_day = ''1'', ex_hour = ''08'', ex_minute = ''30'',
               ex_message = ''Walk''\<rparr>]
             @ map (\<lambda>w. \<lparr>ex_type = ''m'', ex_day = w, ex_hour = ''20'', ex_minute = ''00'',
                           ex_message = ''Take pill''\<rparr>) weekday_codes"
    by (simp add: two_alert_config_def expandedAlerts_def expand_alert_eq padStart_def)
  have s: "name two_alert_config = ''Ann''" "phone two_alert_config = ''555''"
    "email two_alert_config = ''a@b.c''" "medicalInfo two_alert_config = ''none''"
    "deviceId two_alert_config = 100"
    by (simp_all add: two_alert_config_def)
  from round_trip [OF v p] v p show ?thesis
    by (simp only: e s)
qed

section \<open>Loading a malformed store\<close>

text \<open>
  An empty stored string is falsy: it is not parsed, and nothing is logged.
\<close>

lemma load_empty_string:
  "medicalAlertDevices page = Some [] \<Longrightarrow> loadDevices JSON_parse page = page"
  by (simp add: loadDevices_def)

text \<open>
  C8. When the stored text does not parse, \<open>loadDevices\<close> returns normally. A text that
  is not empty is handed to \<open>JSON.parse\<close>, and the exception is logged with
  \<open>console.error\<close>; the empty text is stopped by the guard \<open>if (stored)\<close> before it is
  parsed, and nothing is logged. Either way the device list is left as it was, which is
  the empty list when the page is mounted, and the stored entry is not touched.
\<close>

theorem load_malformed:
  assumes "medicalAlertDevices page = Some stored" and "JSON_parse stored = Inl err"
  shows "loadDevices JSON_parse page =
           (if stored = [] then page
            else page\<lparr>console_error :=
                         console_error page @ [(''[v0] Error loading devices:'', err)]\<rparr>)
     \<and> devices (loadDevices JSON_parse page) = devices page
     \<and> medicalAlertDevices (loadDevices JSON_parse page) = Some stored
     \<and> devices (mount JSON_parse (Some stored)) = []"
  using assms by (simp add: loadDevices_def mount_def)

theorem load_malformed_witness:
  "loadDevices failing_parse broken_store =
     \<lparr>devices = [], medicalAlertDevices = Some ''[{'',
      console_error = [(''[v0] Error loading devices:'', ''SyntaxError'')]\<rparr>"
proof -
  have "medicalAlertDevices broken_store = Some ''[{''" by (simp add: broken_store_def)
  moreover have "failing_parse ''[{'' = Inl ''SyntaxError''" by (simp add: failing_parse_def)
  ultimately show ?thesis
    using load_malformed [of broken_store "''[{''" failing_parse "''SyntaxError''"]
    by (simp add: broken_store_def)
qed

text \<open>
  The empty text does not parse either, and no error is logged for it.
\<close>

theorem load_empty_text_counterexample:
  "medicalAlertDevices empty_text_store = Some []
   \<and> failing_parse [] = Inl ''SyntaxError''
   \<and> loadDevices failing_parse empty_text_store = empty_text_store
   \<and> console_error (loadDevices failing_parse empty_text_store) = []"
  by (simp add: loadDevices_def empty_text_store_def failing_parse_def)

end
